theory Spec2Isabelle
  imports Main "HOL-Library.Word"
begin

section \<open>Machine types of \<^verbatim>\<open>mysql_executor.h\<close>\<close>

text \<open>
  The header is compiled for an LP64 target: \<^verbatim>\<open>size_t\<close> and the client library's
  \<^verbatim>\<open>my_ulonglong\<close> are 64-bit unsigned, \<^verbatim>\<open>int\<close> is 32-bit two's complement (read with
  \<open>sint\<close>), \<^verbatim>\<open>uint8_t\<close> is one byte. A conversion between them keeps the low bits
  (\<open>ucast\<close>) or extends the sign (\<open>scast\<close>), as the compilers of that target do.
\<close>

type_synonym uint8_t = "8 word"
type_synonym size_t = "64 word"
type_synonym my_ulonglong = "64 word"
type_synonym cpp_int = "32 word"

section \<open>Template arguments and \<^verbatim>\<open>MysqlResults\<close>\<close>

text \<open>
  A template argument of \<^verbatim>\<open>MysqlResults<Args...>\<close> is the marker class \<^verbatim>\<open>OnlyExec\<close> or
  some other type (\<^verbatim>\<open>int\<close>, \<^verbatim>\<open>std::string\<close>, ...), which the model leaves open as \<open>'ty\<close>.
  A parameter pack is the list of its arguments.
\<close>

datatype 'ty template_arg = OnlyExec | Value_type 'ty

text \<open>
  \<^verbatim>\<open>static constexpr bool is_only_exec =
       std::is_same_v<std::tuple<Args...>, std::tuple<OnlyExec>>;\<close>
\<close>

definition is_only_exec :: "'ty template_arg list \<Rightarrow> bool" where
  "is_only_exec Args = (Args = [OnlyExec])"

text \<open>
  The four data members of \<^verbatim>\<open>MysqlResults\<close>; a row of \<^verbatim>\<open>result_set\<close> is a
  \<^verbatim>\<open>std::tuple<Args...>\<close>, here \<open>'row\<close>. The constructor sets \<^verbatim>\<open>affected_rows(0)\<close> and
  default-constructs the rest.
\<close>

record 'row MysqlResults =
  result_set :: "'row list"
  null_flags :: "uint8_t list list"
  error_message :: string
  affected_rows :: size_t

definition MysqlResults_ctor :: "'row MysqlResults" where
  "MysqlResults_ctor =
     \<lparr>result_set = [], null_flags = [], error_message = [], affected_rows = 0\<rparr>"

section \<open>The collaborators: client library, statement wrapper, binding helpers\<close>

text \<open>
  \<^verbatim>\<open>mysql_stmt_fetch\<close> returns 0 for a row, 1 for an error, and the two constants below
  (their values are those of \<^verbatim>\<open>mysql.h\<close>).
\<close>

definition MYSQL_NO_DATA :: int where
  "MYSQL_NO_DATA = 100"

definition MYSQL_DATA_TRUNCATED :: int where
  "MYSQL_DATA_TRUNCATED = 101"

text \<open>
  What one call of \<^verbatim>\<open>mysql_stmt_fetch\<close> answers: a status, and the row it has arrived
  at, given per result column as the column's data and its NULL indicator. The fetch
  writes them through the bound descriptors (see \<open>write_bound\<close> below).
\<close>

record fetch_reply =
  fetch_status :: int
  fetch_buffers :: "uint8_t list list"
  fetch_is_null :: "uint8_t list"

text \<open>
  The server and client library behind one call of the executor. The statement's
  result set is finite: \<open>fetch_replies\<close> lists what the successive fetches answer, and a
  fetch past the end of the list answers \<^verbatim>\<open>MYSQL_NO_DATA\<close>, as the library does once
  the result set is exhausted.

  Modelled from the spec: the constructor of \<^verbatim>\<open>MysqlStatement\<close> (mysql_statement.h) and
  \<^verbatim>\<open>ExecuteStatement\<close> (declared in the class, defined outside this header) are not in
  the sources. Following the spec's interface list
  (\<^verbatim>\<open>Prepare(query) -> StatementHandle | PrepareError\<close>,
  \<^verbatim>\<open>Execute() -> ok | ExecError\<close>, both fatal to the call), \<open>prepare_reply\<close> is the
  error text or the field count of the prepared statement, and \<open>execute_reply\<close> is the
  error text, if any, with which \<^verbatim>\<open>ExecuteStatement\<close> throws.
\<close>

record mysql_server =
  prepare_reply :: "string + nat"
  bind_param_reply :: int
  execute_reply :: "string option"
  fetch_replies :: "fetch_reply list"
  stmt_error_text :: string
  affected_rows_reply :: my_ulonglong

text \<open>
  The helpers of \<^verbatim>\<open>mysql_binder.h\<close> are not in the sources. Two are parameters of the
  model: \<^verbatim>\<open>BindInputImpl\<close> builds the input descriptors from the arguments, and
  \<^verbatim>\<open>SetResultTuple\<close> decodes the buffers of the output descriptors into a
  \<^verbatim>\<open>std::tuple<OutputArgs...>\<close>. The third, \<^verbatim>\<open>BindOutputImpl\<close>, is modelled below.
\<close>

record ('arg, 'bind, 'ty, 'row) mysql_binder =
  BindInputImpl :: "'arg list \<Rightarrow> 'bind list"
  SetResultTuple :: "'ty template_arg list \<Rightarrow> uint8_t list list \<Rightarrow> 'row"

text \<open>
  The ways a call ends without returning: the exceptions, named as in the spec's
  taxonomy, and \<open>Out_of_bounds\<close>, a write past the end of a vector. That write is
  undefined behaviour in C++; the model gives it an outcome of its own, at which the
  run stops and about which nothing is proved.
\<close>

datatype mysql_error =
    PrepareError string
  | BindError string
  | ExecError string
  | FetchError string
  | Out_of_bounds

text \<open>The calls an operation makes on its collaborators, in order.\<close>

datatype 'bind protocol_call =
    Call_MysqlStatement string
  | Call_bind_param "'bind list"
  | Call_ExecuteStatement
  | Call_fetch
  | Call_stmt_error
  | Call_affected_rows

text \<open>
  An output descriptor (\<^verbatim>\<open>MYSQL_BIND\<close>), with the members the executor and the binder
  set. A pointer into one of the executor's vectors is the index of the element it
  points at; a null pointer is \<open>None\<close>. \<open>length_cell\<close> is the member \<^verbatim>\<open>length\<close>.
  \<^verbatim>\<open>std::vector<MYSQL_BIND>(n)\<close> value-initialises its elements: all members zero.
\<close>

record 'ty MYSQL_BIND =
  buffer_type :: "'ty template_arg option"
  buffer :: "nat option"
  is_null :: "nat option"
  length_cell :: "nat option"

definition zeroed_bind :: "'ty MYSQL_BIND" where
  "zeroed_bind = \<lparr>buffer_type = None, buffer = None, is_null = None, length_cell = None\<rparr>"

text \<open>
  Modelled from the spec: \<^verbatim>\<open>BindOutputImpl<OutputArgs...>\<close> (mysql_binder.h) is not in the
  sources. By the spec's data model a descriptor records the type code, the buffer
  and the is-null flag of its column, and "the arity and positional order of the
  Output Buffer list equals the arity and order of the declared output type list":
  for the \<open>i\<close>-th declared type, descriptor \<open>i\<close> gets that type, output buffer \<open>i\<close> and
  null-flag cell \<open>i\<close>. Descriptors past the declared types stay as they are. With more
  declared types than descriptors the helper writes past the end of the vector.
\<close>

definition BindOutputImpl ::
  "'ty template_arg list \<Rightarrow> 'ty MYSQL_BIND list \<Rightarrow> 'ty MYSQL_BIND list option" where
  "BindOutputImpl OutputArgs output_binds =
     (if length output_binds < length OutputArgs then None
      else Some
        (map (\<lambda>(i, b). if i < length OutputArgs
                        then b\<lparr>buffer_type := Some (OutputArgs ! i),
                               buffer := Some i, is_null := Some i\<rparr>
                        else b)
           (enumerate 0 output_binds)))"

text \<open>
  What \<^verbatim>\<open>mysql_stmt_fetch\<close> writes: for each descriptor in turn, the value of its
  column goes to the cell its pointer names; a descriptor with a null pointer writes
  nothing. The vector of cells keeps its size.
\<close>

definition write_bound ::
  "('b \<Rightarrow> nat option) \<Rightarrow> 'b list \<Rightarrow> 'c list \<Rightarrow> 'c list \<Rightarrow> 'c list" where
  "write_bound pointer binds column_values cells =
     fold (\<lambda>(b, v) cells. case pointer b of None \<Rightarrow> cells | Some i \<Rightarrow> cells[i := v])
       (zip binds column_values) cells"

text \<open>
  What \<^verbatim>\<open>SetResultTuple\<close> is handed: the descriptors, each with the content of the buffer
  it points at (nothing for a null pointer).
\<close>

definition bound_buffers :: "'ty MYSQL_BIND list \<Rightarrow> uint8_t list list \<Rightarrow> uint8_t list list" where
  "bound_buffers output_binds output_buffers =
     map (\<lambda>b. case buffer b of
                None \<Rightarrow> []
              | Some i \<Rightarrow> if i < length output_buffers then output_buffers ! i else [])
       output_binds"

section \<open>The executor\<close>

text \<open>
  What a call of \<^verbatim>\<open>QueryAll\<close> leaves behind: the exception it ended with (if any), the
  calls it made, and the caller's two vectors, which it takes by reference.
\<close>

record ('bind, 'row) query_run =
  q_thrown :: "mysql_error option"
  q_calls :: "'bind protocol_call list"
  q_results :: "'row list"
  q_null_flags :: "uint8_t list list"

text \<open>
  The \<^verbatim>\<open>while(true)\<close> loop of \<^verbatim>\<open>FetchResults\<close>. It returns the last status with the
  state. Status 1 and \<^verbatim>\<open>MYSQL_NO_DATA\<close> break; \<^verbatim>\<open>MYSQL_DATA_TRUNCATED\<close> has an empty
  branch (\<^verbatim>\<open>//To Do\<close>); every other status appends the tuple that
  \<^verbatim>\<open>SetResultTuple(row_res, output_binds)\<close> decodes and a copy of the null-flag buffer.
\<close>

fun FetchResults_loop ::
  "(uint8_t list list \<Rightarrow> 'row) \<Rightarrow> fetch_reply list \<Rightarrow> 'ty MYSQL_BIND list \<Rightarrow>
   uint8_t list list \<Rightarrow> uint8_t list \<Rightarrow>
   ('bind, 'row) query_run \<Rightarrow> int \<times> ('bind, 'row) query_run" where
  "FetchResults_loop set_tuple [] output_binds output_buffers null_flag_buffer run =
     (MYSQL_NO_DATA, run\<lparr>q_calls := q_calls run @ [Call_fetch]\<rparr>)"
| "FetchResults_loop set_tuple (r # rs) output_binds output_buffers null_flag_buffer run =
     (let status = fetch_status r;
          output_buffers' = write_bound buffer output_binds (fetch_buffers r) output_buffers;
          null_flag_buffer' = write_bound is_null output_binds (fetch_is_null r) null_flag_buffer;
          run' = run\<lparr>q_calls := q_calls run @ [Call_fetch]\<rparr>
      in if status = 1 \<or> status = MYSQL_NO_DATA then (status, run')
         else if status = MYSQL_DATA_TRUNCATED then
           FetchResults_loop set_tuple rs output_binds output_buffers' null_flag_buffer' run'
         else
           FetchResults_loop set_tuple rs output_binds output_buffers' null_flag_buffer'
             (run'\<lparr>q_results := q_results run' @
                                   [set_tuple (bound_buffers output_binds output_buffers')],
                    q_null_flags := q_null_flags run' @ [null_flag_buffer']\<rparr>))"

text \<open>
  \<^verbatim>\<open>FetchResults\<close>: after the loop, on status 1 the source evaluates
  \<^verbatim>\<open>std::runtime_error(mysql_stmt_error(...));\<close> as an expression statement: the
  error text is read and an exception object is built and destroyed; there is no
  \<^verbatim>\<open>throw\<close>.
\<close>

definition FetchResults ::
  "mysql_server \<Rightarrow> (uint8_t list list \<Rightarrow> 'row) \<Rightarrow> 'ty MYSQL_BIND list \<Rightarrow>
   uint8_t list list \<Rightarrow> uint8_t list \<Rightarrow>
   ('bind, 'row) query_run \<Rightarrow> ('bind, 'row) query_run" where
  "FetchResults srv set_tuple output_binds output_buffers null_flag_buffer run =
     (case FetchResults_loop set_tuple (fetch_replies srv) output_binds output_buffers
             null_flag_buffer run of
        (status, run') \<Rightarrow>
          if status = 1 then
            (let temporary = FetchError (stmt_error_text srv)
             in run'\<lparr>q_calls := q_calls run' @ [Call_stmt_error]\<rparr>)
          else run')"

text \<open>
  \<^verbatim>\<open>BindOutputs<OutputArgs...>\<close> hands its three arguments to \<^verbatim>\<open>BindOutputImpl\<close>; of the
  three, the model's \<^verbatim>\<open>BindOutputImpl\<close> changes the descriptors only.
\<close>

definition BindOutputs ::
  "'ty template_arg list \<Rightarrow> 'ty MYSQL_BIND list \<Rightarrow> 'ty MYSQL_BIND list option" where
  "BindOutputs OutputArgs output_binds = BindOutputImpl OutputArgs output_binds"

text \<open>
  \<^verbatim>\<open>QueryAll(results, null_flags, query, args...)\<close>. \<open>results0\<close> and \<open>null_flags0\<close> are
  the caller's vectors before the call. The result of \<^verbatim>\<open>mysql_stmt_bind_param\<close> is
  compared with 0 and the branch is empty (\<^verbatim>\<open>// handle\<close>). The descriptors, buffers,
  length cells and null-flag cells are all allocated with \<^verbatim>\<open>stmt.GetFieldCount()\<close>
  elements, value-initialised. \<^verbatim>\<open>BindOutputs\<close> then fills the descriptors of the declared
  output types, and the \<^verbatim>\<open>for\<close> loop points every descriptor's \<^verbatim>\<open>length\<close> at its length
  cell. \<^verbatim>\<open>ExecuteStatement(output_binds, stmt)\<close> hands the descriptors to the library,
  whose fetches write through them.
\<close>

definition QueryAll ::
  "mysql_server \<Rightarrow> ('arg, 'bind, 'ty, 'row) mysql_binder \<Rightarrow> 'ty template_arg list \<Rightarrow>
   'row list \<Rightarrow> uint8_t list list \<Rightarrow> string \<Rightarrow> 'arg list \<Rightarrow> ('bind, 'row) query_run" where
  "QueryAll srv bnd OutputArgs results0 null_flags0 query args =
     (let run = \<lparr>q_thrown = None, q_calls = [],
                 q_results = results0, q_null_flags = null_flags0\<rparr>;
          run = run\<lparr>q_results := [], q_null_flags := []\<rparr>;
          run = run\<lparr>q_calls := q_calls run @ [Call_MysqlStatement query]\<rparr>
      in case prepare_reply srv of
           Inl msg \<Rightarrow> run\<lparr>q_thrown := Some (PrepareError msg)\<rparr>
         | Inr field_count \<Rightarrow>
             (let input_binds = BindInputImpl bnd args;
                  run = run\<lparr>q_calls := q_calls run @ [Call_bind_param input_binds]\<rparr>;
                  run = (if bind_param_reply srv \<noteq> 0 then run else run);
                  output_binds = replicate field_count (zeroed_bind :: 'ty MYSQL_BIND);
                  output_buffers = replicate field_count [];
                  output_length = replicate field_count (0 :: 64 word);
                  null_flag_buffer = replicate field_count 0
              in case BindOutputs OutputArgs output_binds of
                   None \<Rightarrow> run\<lparr>q_thrown := Some Out_of_bounds\<rparr>
                 | Some output_binds \<Rightarrow>
                     (let output_binds =
                            map (\<lambda>(i, b). b\<lparr>length_cell := Some i\<rparr>) (enumerate 0 output_binds);
                          run = run\<lparr>q_calls := q_calls run @ [Call_ExecuteStatement]\<rparr>
                      in case execute_reply srv of
                           Some msg \<Rightarrow> run\<lparr>q_thrown := Some (ExecError msg)\<rparr>
                         | None \<Rightarrow>
                             FetchResults srv (SetResultTuple bnd OutputArgs)
                               output_binds output_buffers null_flag_buffer run)))"

text \<open>
  \<^verbatim>\<open>int Execute(query, args...)\<close>: the calls it made, and the exception or the returned
  \<^verbatim>\<open>int\<close>. The count goes from \<^verbatim>\<open>my_ulonglong\<close> into \<^verbatim>\<open>size_t affected_row\<close> and is
  returned as \<^verbatim>\<open>int\<close>.
\<close>

record 'bind exec_run =
  x_calls :: "'bind protocol_call list"
  x_result :: "mysql_error + cpp_int"

definition Execute ::
  "mysql_server \<Rightarrow> ('arg, 'bind, 'ty, 'row) mysql_binder \<Rightarrow> string \<Rightarrow> 'arg list \<Rightarrow> 'bind exec_run" where
  "Execute srv bnd query args =
     (let calls = [Call_MysqlStatement query]
      in case prepare_reply srv of
           Inl msg \<Rightarrow> \<lparr>x_calls = calls, x_result = Inl (PrepareError msg)\<rparr>
         | Inr field_count \<Rightarrow>
             (let input_binds = BindInputImpl bnd args;
                  calls = calls @ [Call_bind_param input_binds];
                  calls = (if bind_param_reply srv \<noteq> 0 then calls else calls);
                  calls = calls @ [Call_ExecuteStatement]
              in case execute_reply srv of
                   Some msg \<Rightarrow> \<lparr>x_calls = calls, x_result = Inl (ExecError msg)\<rparr>
                 | None \<Rightarrow>
                     (let affected_row = (ucast (affected_rows_reply srv) :: size_t)
                      in \<lparr>x_calls = calls @ [Call_affected_rows],
                          x_result = Inr (ucast affected_row :: cpp_int)\<rparr>)))"

text \<open>
  The two overloads on a \<^verbatim>\<open>MysqlResults\<close> object: the exception (if any), the calls,
  and the object after the call.
\<close>

record ('bind, 'row) results_run =
  m_thrown :: "mysql_error option"
  m_calls :: "'bind protocol_call list"
  m_results :: "'row MysqlResults"

text \<open>
  \<^verbatim>\<open>QueryAll(mysql_results, query, args...)\<close> passes \<^verbatim>\<open>mysql_results.result_set\<close> and
  \<^verbatim>\<open>mysql_results.null_flags\<close> by reference to the overload above.
\<close>

definition QueryAll_MysqlResults ::
  "mysql_server \<Rightarrow> ('arg, 'bind, 'ty, 'row) mysql_binder \<Rightarrow> 'ty template_arg list \<Rightarrow>
   'row MysqlResults \<Rightarrow> string \<Rightarrow> 'arg list \<Rightarrow> ('bind, 'row) results_run" where
  "QueryAll_MysqlResults srv bnd OutputArgs mysql_results query args =
     (let run = QueryAll srv bnd OutputArgs
                  (result_set mysql_results) (null_flags mysql_results) query args
      in \<lparr>m_thrown = q_thrown run, m_calls = q_calls run,
          m_results = mysql_results\<lparr>result_set := q_results run,
                                    null_flags := q_null_flags run\<rparr>\<rparr>)"

text \<open>
  What the compiler answers to a call on a \<^verbatim>\<open>MysqlResults<Args...>\<close> object instead of
  a function: a failed \<^verbatim>\<open>static_assert\<close> with its message, or no viable overload.
\<close>

datatype compile_error = Static_assert_failed string | No_matching_function

text \<open>
  Instantiating that overload evaluates
  \<^verbatim>\<open>static_assert(!MysqlResults<OutputArgs...>::is_only_exec, "...")\<close>: a template
  argument list that fails it gives the compiler's diagnostic and no function; any
  other gives the function.
\<close>

definition QueryAll_MysqlResults_template ::
  "'ty template_arg list \<Rightarrow>
   compile_error + (mysql_server \<Rightarrow> ('arg, 'bind, 'ty, 'row) mysql_binder \<Rightarrow>
             'row MysqlResults \<Rightarrow> string \<Rightarrow> 'arg list \<Rightarrow> ('bind, 'row) results_run)" where
  "QueryAll_MysqlResults_template OutputArgs =
     (if is_only_exec OutputArgs
      then Inl (Static_assert_failed ''MysqlResults<OnlyExec> cannot be used with QueryAll.'')
      else Inr (\<lambda>srv bnd. QueryAll_MysqlResults srv bnd OutputArgs))"

text \<open>
  \<^verbatim>\<open>Execute(MysqlResults<OnlyExec>& mysql_results, query, args...)\<close>:
  \<^verbatim>\<open>mysql_results.affected_rows = Execute(query, args...);\<close> converts the returned \<^verbatim>\<open>int\<close>
  to \<^verbatim>\<open>size_t\<close>. When \<^verbatim>\<open>Execute\<close> throws, the assignment does not happen.
\<close>

definition Execute_MysqlResults ::
  "mysql_server \<Rightarrow> ('arg, 'bind, 'ty, 'row) mysql_binder \<Rightarrow>
   'row MysqlResults \<Rightarrow> string \<Rightarrow> 'arg list \<Rightarrow> ('bind, 'row) results_run" where
  "Execute_MysqlResults srv bnd mysql_results query args =
     (let run = Execute srv bnd query args
      in case x_result run of
           Inl e \<Rightarrow> \<lparr>m_thrown = Some e, m_calls = x_calls run, m_results = mysql_results\<rparr>
         | Inr n \<Rightarrow> \<lparr>m_thrown = None, m_calls = x_calls run,
                     m_results = mysql_results\<lparr>affected_rows := (scast n :: size_t)\<rparr>\<rparr>)"

text \<open>
  The first parameter of that overload has the type \<^verbatim>\<open>MysqlResults<OnlyExec>&\<close>: a
  \<^verbatim>\<open>MysqlResults<Args...>\<close> object of any other template argument list does not bind to
  it, and the call has no viable overload.
\<close>

definition Execute_MysqlResults_overload ::
  "'ty template_arg list \<Rightarrow>
   compile_error + (mysql_server \<Rightarrow> ('arg, 'bind, 'ty, 'row) mysql_binder \<Rightarrow>
             'row MysqlResults \<Rightarrow> string \<Rightarrow> 'arg list \<Rightarrow> ('bind, 'row) results_run)" where
  "Execute_MysqlResults_overload Args =
     (if Args = [OnlyExec] then Inr Execute_MysqlResults else Inl No_matching_function)"

section \<open>Describing a run of the fetch loop\<close>

text \<open>
  The replies the loop consumes before the one that stops it (status 1 or
  \<^verbatim>\<open>MYSQL_NO_DATA\<close>, or the end of the result set).
\<close>

definition row_fetches :: "fetch_reply list \<Rightarrow> fetch_reply list" where
  "row_fetches rs =
     takeWhile (\<lambda>r. fetch_status r \<noteq> 1 \<and> fetch_status r \<noteq> MYSQL_NO_DATA) rs"

text \<open>The status that stops the loop.\<close>

definition stopping_status :: "fetch_reply list \<Rightarrow> int" where
  "stopping_status rs =
     (case dropWhile (\<lambda>r. fetch_status r \<noteq> 1 \<and> fetch_status r \<noteq> MYSQL_NO_DATA) rs of
        [] \<Rightarrow> MYSQL_NO_DATA
      | r # _ \<Rightarrow> fetch_status r)"

text \<open>
  Modelled from the spec: \<^verbatim>\<open>SetResultTuple\<close> (mysql_binder.h) is not in the sources. By
  the spec's fetch step it is to "decode each Output Buffer into its declared type via
  the Type Binder's reverse mapping, assemble the Row tuple preserving column order":
  element \<open>i\<close> of the tuple is buffer \<open>i\<close> decoded as the \<open>i\<close>-th declared type. \<open>decode\<close>
  is the reverse mapping of the type binder. \<^verbatim>\<open>SetResultTuple\<close> stays a parameter of the
  executor; a statement about the values of a row takes it to be this function.
\<close>

definition positional_tuple ::
  "('ty template_arg \<Rightarrow> uint8_t list \<Rightarrow> 'val) \<Rightarrow> 'ty template_arg list \<Rightarrow>
   uint8_t list list \<Rightarrow> 'val list" where
  "positional_tuple decode OutputArgs buffers =
     map (\<lambda>(ty, bytes). decode ty bytes) (zip OutputArgs buffers)"

text \<open>
  The descriptors \<^verbatim>\<open>QueryAll\<close> hands to \<^verbatim>\<open>ExecuteStatement\<close> and \<^verbatim>\<open>FetchResults\<close> for a
  statement of \<open>F\<close> fields: \<open>F\<close> zeroed descriptors, filled by \<^verbatim>\<open>BindOutputs\<close> for the
  declared types, each with its length cell.
\<close>

definition bound_descriptors :: "'ty template_arg list \<Rightarrow> nat \<Rightarrow> 'ty MYSQL_BIND list" where
  "bound_descriptors OutputArgs F =
     map (\<lambda>(i, b). b\<lparr>length_cell := Some i\<rparr>)
       (enumerate 0
          (map (\<lambda>(i, b). if i < length OutputArgs
                          then b\<lparr>buffer_type := Some (OutputArgs ! i),
                                 buffer := Some i, is_null := Some i\<rparr>
                          else b)
             (enumerate 0 (replicate F zeroed_bind))))"

section \<open>Concrete collaborators\<close>

text \<open>
  Binding helpers whose descriptors are the argument texts and whose tuple is the raw
  content of the first \<^verbatim>\<open>sizeof...(OutputArgs)\<close> buffers; and the server of the spec's
  scenario, a table \<^verbatim>\<open>t(a INT, b TEXT)\<close> holding \<^verbatim>\<open>(5, "x")\<close> and \<^verbatim>\<open>(7, NULL)\<close>.
\<close>

definition example_binder :: "(string, string, string, uint8_t list list) mysql_binder" where
  "example_binder =
     \<lparr>BindInputImpl = (\<lambda>args. args),
      SetResultTuple = (\<lambda>OutputArgs buffers. take (length OutputArgs) buffers)\<rparr>"

definition example_server :: mysql_server where
  "example_server =
     \<lparr>prepare_reply = Inr 2, bind_param_reply = 0, execute_reply = None,
      fetch_replies =
        [\<lparr>fetch_status = 0, fetch_buffers = [[5, 0, 0, 0], [120]], fetch_is_null = [0, 0]\<rparr>,
         \<lparr>fetch_status = 0, fetch_buffers = [[7, 0, 0, 0], []], fetch_is_null = [0, 1]\<rparr>],
      stmt_error_text = [], affected_rows_reply = 0\<rparr>"

text \<open>
  A statement with three result columns, \<^verbatim>\<open>SELECT a, b, c FROM t3\<close>, whose only row is
  \<^verbatim>\<open>(5, "x", NULL)\<close>.
\<close>

definition three_column_server :: mysql_server where
  "three_column_server =
     \<lparr>prepare_reply = Inr 3, bind_param_reply = 0, execute_reply = None,
      fetch_replies =
        [\<lparr>fetch_status = 0, fetch_buffers = [[5, 0, 0, 0], [120], []],
          fetch_is_null = [0, 0, 1]\<rparr>],
      stmt_error_text = [], affected_rows_reply = 0\<rparr>"

text \<open>The second fetch fails (status 1) with an error text of the client library.\<close>

definition failing_fetch_server :: mysql_server where
  "failing_fetch_server =
     example_server
       \<lparr>fetch_replies :=
          [\<lparr>fetch_status = 0, fetch_buffers = [[5, 0, 0, 0], [120]], fetch_is_null = [0, 0]\<rparr>,
           \<lparr>fetch_status = 1, fetch_buffers = [], fetch_is_null = []\<rparr>],
        stmt_error_text := ''Lost connection to MySQL server during query''\<rparr>"

text \<open>
  Three rows, the second with a text longer than its buffer: the fetch answers
  \<^verbatim>\<open>MYSQL_DATA_TRUNCATED\<close> and leaves the cut value in the buffer.
\<close>

definition truncating_server :: mysql_server where
  "truncating_server =
     example_server
       \<lparr>fetch_replies :=
          [\<lparr>fetch_status = 0, fetch_buffers = [[5, 0, 0, 0], [120]], fetch_is_null = [0, 0]\<rparr>,
           \<lparr>fetch_status = 101, fetch_buffers = [[6, 0, 0, 0], [121, 121]], fetch_is_null = [0, 0]\<rparr>,
           \<lparr>fetch_status = 0, fetch_buffers = [[7, 0, 0, 0], []], fetch_is_null = [0, 1]\<rparr>]\<rparr>"

text \<open>\<^verbatim>\<open>mysql_stmt_bind_param\<close> rejects the descriptors (it returns 1).\<close>

definition rejecting_bind_server :: mysql_server where
  "rejecting_bind_server = example_server\<lparr>bind_param_reply := 1, affected_rows_reply := 1\<rparr>"

section \<open>Lemmas on writes through the descriptors\<close>

lemma length_write_bound: "length (write_bound pointer binds column_values cells) = length cells"
proof -
  have "length (fold (\<lambda>(b, v) cells. case pointer b of None \<Rightarrow> cells | Some i \<Rightarrow> cells[i := v])
                  zs cells) = length cells" for zs
    by (induction zs arbitrary: cells) (auto split: option.splits)
  then show ?thesis
    by (simp add: write_bound_def)
qed

text \<open>
  Through descriptors that point, one by one, at the cells of a vector, a fetch of as
  many column values replaces the vector's content.
\<close>

lemma write_bound_all:
  assumes binds: "length binds = n" and ptr: "\<forall>j < n. pointer (binds ! j) = Some j"
    and vs: "length column_values = n" and cells: "length cells = n"
  shows "write_bound pointer binds column_values cells = column_values"
proof -
  let ?g = "\<lambda>(b, v) cells. case pointer b of None \<Rightarrow> cells | Some i \<Rightarrow> cells[i := v]"
  let ?zs = "zip binds column_values"
  have step: "m \<le> n \<Longrightarrow> fold ?g (take m ?zs) cells = take m column_values @ drop m cells" for m
  proof (induction m)
    case 0
    show ?case by simp
  next
    case (Suc m)
    then have m: "m < n" and IH: "fold ?g (take m ?zs) cells = take m column_values @ drop m cells"
      by simp_all
    have "take (Suc m) ?zs = take m ?zs @ [(binds ! m, column_values ! m)]"
      using m binds vs by (simp add: take_Suc_conv_app_nth)
    then have "fold ?g (take (Suc m) ?zs) cells =
        (take m column_values @ drop m cells)[m := column_values ! m]"
      using m ptr IH by simp
    also have "\<dots> = take m column_values @ (drop m cells)[0 := column_values ! m]"
      using m vs by (simp add: list_update_append)
    also have "drop m cells = cells ! m # drop (Suc m) cells"
      using m cells by (simp add: Cons_nth_drop_Suc)
    finally show ?case
      using m vs by (simp add: take_Suc_conv_app_nth)
  qed
  from step [of n] show ?thesis
    using binds vs cells by (simp add: write_bound_def)
qed

lemma bound_buffers_all:
  assumes "length binds = n" and "\<forall>j < n. buffer (binds ! j) = Some j" and "length bufs = n"
  shows "bound_buffers binds bufs = bufs"
  using assms by (simp add: bound_buffers_def list_eq_iff_nth_eq)

lemma length_bound_descriptors: "length (bound_descriptors OutputArgs F) = F"
  by (simp add: bound_descriptors_def)

lemma bound_descriptors_pointers:
  "j < F \<Longrightarrow> j < length OutputArgs \<Longrightarrow>
   buffer (bound_descriptors OutputArgs F ! j) = Some j \<and>
   is_null (bound_descriptors OutputArgs F ! j) = Some j"
  by (simp add: bound_descriptors_def nth_enumerate_eq)

section \<open>Lemmas on the fetch loop\<close>

lemma FetchResults_loop_thrown:
  "q_thrown (snd (FetchResults_loop f rs binds b n run)) = q_thrown run"
  by (induction rs arbitrary: b n run) (simp_all add: Let_def)

lemma FetchResults_loop_calls:
  "q_calls (snd (FetchResults_loop f rs binds b n run)) =
     q_calls run @ replicate (Suc (length (row_fetches rs))) Call_fetch"
  by (induction rs arbitrary: b n run)
     (simp_all add: Let_def row_fetches_def replicate_append_same)

lemma FetchResults_loop_status:
  "fst (FetchResults_loop f rs binds b n run) = stopping_status rs"
  by (induction rs arbitrary: b n run) (auto simp add: Let_def stopping_status_def)

lemma FetchResults_loop_count:
  "length (q_results (snd (FetchResults_loop f rs binds b n run))) =
     length (q_results run) +
     length (filter (\<lambda>r. fetch_status r \<noteq> MYSQL_DATA_TRUNCATED) (row_fetches rs))"
  by (induction rs arbitrary: b n run) (simp_all add: Let_def row_fetches_def)

text \<open>
  With every descriptor bound to its own buffer and cell, and every row fetched whole
  and with status 0, the loop appends the rows decoded from the fetched data and their
  NULL indicators, in order.
\<close>

lemma FetchResults_loop_rows:
  assumes len: "length binds = F"
    and ptrs: "\<forall>j < F. buffer (binds ! j) = Some j \<and> is_null (binds ! j) = Some j"
  shows "length b = F \<Longrightarrow> length n = F \<Longrightarrow>
    \<forall>r \<in> set (row_fetches rs). fetch_status r = 0 \<and>
       length (fetch_buffers r) = F \<and> length (fetch_is_null r) = F \<Longrightarrow>
    q_results (snd (FetchResults_loop f rs binds b n run)) =
      q_results run @ map (\<lambda>r. f (fetch_buffers r)) (row_fetches rs) \<and>
    q_null_flags (snd (FetchResults_loop f rs binds b n run)) =
      q_null_flags run @ map fetch_is_null (row_fetches rs)"
proof (induction rs arbitrary: b n run)
  case Nil
  then show ?case by (simp add: row_fetches_def)
next
  case (Cons r rs)
  show ?case
  proof (cases "fetch_status r = 1 \<or> fetch_status r = MYSQL_NO_DATA")
    case True
    then show ?thesis by (auto simp add: Let_def row_fetches_def)
  next
    case False
    then have pre: "row_fetches (r # rs) = r # row_fetches rs"
      by (simp add: row_fetches_def)
    from Cons.prems(3) pre have ok: "fetch_status r = 0"
      and wb: "length (fetch_buffers r) = F" and wn: "length (fetch_is_null r) = F"
      and rest: "\<forall>r \<in> set (row_fetches rs). fetch_status r = 0 \<and>
         length (fetch_buffers r) = F \<and> length (fetch_is_null r) = F"
      by simp_all
    have b': "write_bound buffer binds (fetch_buffers r) b = fetch_buffers r"
      using len ptrs wb Cons.prems(1) by (intro write_bound_all [where n = F]) simp_all
    have n': "write_bound is_null binds (fetch_is_null r) n = fetch_is_null r"
      using len ptrs wn Cons.prems(2) by (intro write_bound_all [where n = F]) simp_all
    have seen: "bound_buffers binds (fetch_buffers r) = fetch_buffers r"
      using len ptrs wb by (intro bound_buffers_all [where n = F]) simp_all
    have step: "FetchResults_loop f (r # rs) binds b n run =
        FetchResults_loop f rs binds (fetch_buffers r) (fetch_is_null r)
          (run\<lparr>q_calls := q_calls run @ [Call_fetch],
               q_results := q_results run @ [f (fetch_buffers r)],
               q_null_flags := q_null_flags run @ [fetch_is_null r]\<rparr>)"
      using False ok by (simp add: Let_def b' n' seen MYSQL_DATA_TRUNCATED_def)
    show ?thesis
      unfolding step pre
      using Cons.IH [OF wb wn rest] by simp
  qed
qed

lemma FetchResults_fields:
  "q_results (FetchResults srv f binds b n run) =
     q_results (snd (FetchResults_loop f (fetch_replies srv) binds b n run))"
  "q_null_flags (FetchResults srv f binds b n run) =
     q_null_flags (snd (FetchResults_loop f (fetch_replies srv) binds b n run))"
  "q_thrown (FetchResults srv f binds b n run) =
     q_thrown (snd (FetchResults_loop f (fetch_replies srv) binds b n run))"
  by (simp_all add: FetchResults_def Let_def split: prod.splits)

lemma FetchResults_calls:
  "q_calls (FetchResults srv f binds b n run) =
     q_calls run @ replicate (Suc (length (row_fetches (fetch_replies srv)))) Call_fetch @
     (if stopping_status (fetch_replies srv) = 1 then [Call_stmt_error] else [])"
  using FetchResults_loop_calls [of f "fetch_replies srv" binds b n run]
    FetchResults_loop_status [of f "fetch_replies srv" binds b n run]
  by (cases "FetchResults_loop f (fetch_replies srv) binds b n run")
     (simp add: FetchResults_def Let_def)

section \<open>Lemmas on \<^verbatim>\<open>QueryAll\<close>\<close>

lemma QueryAll_prepared:
  fixes bnd :: "('arg, 'bind, 'ty, 'row) mysql_binder"
  shows "prepare_reply srv = Inr F \<Longrightarrow> length OutputArgs \<le> F \<Longrightarrow> execute_reply srv = None \<Longrightarrow>
   QueryAll srv bnd OutputArgs results0 null_flags0 query args =
     FetchResults srv (SetResultTuple bnd OutputArgs) (bound_descriptors OutputArgs F)
       (replicate F []) (replicate F 0)
       \<lparr>q_thrown = None,
        q_calls = [Call_MysqlStatement query, Call_bind_param (BindInputImpl bnd args),
                   Call_ExecuteStatement],
        q_results = [], q_null_flags = []\<rparr>"
  by (simp add: QueryAll_def BindOutputs_def BindOutputImpl_def bound_descriptors_def Let_def)

lemma nth_positional_tuple:
  "i < length OutputArgs \<Longrightarrow> i < length buffers \<Longrightarrow>
   positional_tuple decode OutputArgs buffers ! i = decode (OutputArgs ! i) (buffers ! i)"
  by (simp add: positional_tuple_def)

lemma length_positional_tuple:
  "length (positional_tuple decode OutputArgs buffers) = min (length OutputArgs) (length buffers)"
  by (simp add: positional_tuple_def)

lemma map_second_zip: "map (\<lambda>(x, y). y) (zip xs ys) = take (length xs) ys"
proof (induction xs arbitrary: ys)
  case Nil
  show ?case by simp
next
  case (Cons x xs)
  show ?case
    using Cons.IH by (cases ys) simp_all
qed

lemma example_binder_positional:
  "SetResultTuple example_binder OutputArgs = positional_tuple (\<lambda>ty bytes. bytes) OutputArgs"
  by (rule ext) (simp add: example_binder_def positional_tuple_def map_second_zip)

section \<open>The claims\<close>

subsection \<open>C1: row count, flag length and alignment\<close>

text \<open>
  Claim C1, as amended by one condition: the caller declares as many output types as
  the statement has fields. Then, for a query that prepares, binds and executes and
  whose fetches answer \<open>N\<close> whole rows (status 0) and then the end of data,
  \<^verbatim>\<open>QueryAll\<close> returns a result collection of exactly \<open>N\<close> rows and \<open>N\<close> null-flag
  sequences; every row and every flag sequence has the length of the declared output
  arity; and, \<^verbatim>\<open>SetResultTuple\<close> decoding buffer \<open>i\<close> as the \<open>i\<close>-th declared type,
  value \<open>i\<close> of the \<open>k\<close>-th row is column \<open>i\<close> of the \<open>k\<close>-th fetched row, decoded, and
  flag \<open>i\<close> is the NULL indicator of that same column.
\<close>

theorem QueryAll_rows_and_flags:
  fixes bnd :: "('arg, 'bind, 'ty, 'val list) mysql_binder"
  assumes prep: "prepare_reply srv = Inr F"
    and arity: "length OutputArgs = F"
    and bound: "bind_param_reply srv = 0"
    and exec: "execute_reply srv = None"
    and rows: "rows = row_fetches (fetch_replies srv)"
    and fetched: "\<forall>r \<in> set rows. fetch_status r = 0 \<and>
                    length (fetch_buffers r) = F \<and> length (fetch_is_null r) = F"
    and stop: "stopping_status (fetch_replies srv) = MYSQL_NO_DATA"
    and positional: "SetResultTuple bnd OutputArgs = positional_tuple decode OutputArgs"
    and run: "run = QueryAll srv bnd OutputArgs results0 null_flags0 query args"
  shows "q_thrown run = None \<and>
         length (q_results run) = length rows \<and>
         length (q_null_flags run) = length rows \<and>
         (\<forall>k < length rows.
            length (q_results run ! k) = length OutputArgs \<and>
            length (q_null_flags run ! k) = length OutputArgs \<and>
            (\<forall>i < length OutputArgs.
               q_results run ! k ! i = decode (OutputArgs ! i) (fetch_buffers (rows ! k) ! i) \<and>
               q_null_flags run ! k ! i = fetch_is_null (rows ! k) ! i))"
proof -
  let ?init = "\<lparr>q_thrown = None,
        q_calls = [Call_MysqlStatement query, Call_bind_param (BindInputImpl bnd args),
                   Call_ExecuteStatement],
        q_results = [], q_null_flags = []\<rparr> :: ('bind, 'val list) query_run"
  have eq: "run = FetchResults srv (SetResultTuple bnd OutputArgs) (bound_descriptors OutputArgs F)
       (replicate F []) (replicate F 0) ?init"
    using arity by (simp add: run QueryAll_prepared [OF prep _ exec])
  have thrown: "q_thrown run = None"
    by (simp add: eq FetchResults_fields FetchResults_loop_thrown)
  have ptrs: "\<forall>j < F. buffer (bound_descriptors OutputArgs F ! j) = Some j \<and>
                       is_null (bound_descriptors OutputArgs F ! j) = Some j"
    using arity by (simp add: bound_descriptors_pointers)
  have "q_results run = map (\<lambda>r. SetResultTuple bnd OutputArgs (fetch_buffers r)) rows \<and>
        q_null_flags run = map fetch_is_null rows"
    using FetchResults_loop_rows [OF length_bound_descriptors ptrs, where b = "replicate F []"
        and n = "replicate F 0" and rs = "fetch_replies srv" and run = ?init
        and f = "SetResultTuple bnd OutputArgs"] fetched
    by (simp add: eq rows FetchResults_fields)
  then have res: "q_results run = map (\<lambda>r. positional_tuple decode OutputArgs (fetch_buffers r)) rows"
    and fl: "q_null_flags run = map fetch_is_null rows"
    by (simp_all add: positional)
  have cols: "\<forall>k < length rows.
            length (q_results run ! k) = length OutputArgs \<and>
            length (q_null_flags run ! k) = length OutputArgs \<and>
            (\<forall>i < length OutputArgs.
               q_results run ! k ! i = decode (OutputArgs ! i) (fetch_buffers (rows ! k) ! i) \<and>
               q_null_flags run ! k ! i = fetch_is_null (rows ! k) ! i)"
    using fetched arity
    by (simp add: res fl length_positional_tuple nth_positional_tuple)
  show ?thesis
    using thrown cols by (simp add: res fl)
qed

text \<open>
  The theorem at the two-row table of the spec's scenario: two rows come back, each
  flag sequence has two flags, and in the second row column \<^verbatim>\<open>a\<close> holds 7 and the flag
  of column \<^verbatim>\<open>b\<close> is set.
\<close>

theorem QueryAll_rows_and_flags_witness:
  "prepare_reply example_server = Inr 2 \<and>
   length [Value_type ''int'', Value_type ''std::string''] = 2 \<and>
   bind_param_reply example_server = 0 \<and> execute_reply example_server = None \<and>
   map fetch_status (row_fetches (fetch_replies example_server)) = [0, 0] \<and>
   map (length \<circ> fetch_buffers) (row_fetches (fetch_replies example_server)) = [2, 2] \<and>
   map (length \<circ> fetch_is_null) (row_fetches (fetch_replies example_server)) = [2, 2] \<and>
   stopping_status (fetch_replies example_server) = MYSQL_NO_DATA \<and>
   length (q_results (QueryAll example_server example_binder
      [Value_type ''int'', Value_type ''std::string''] [] [] ''SELECT a, b FROM t'' [])) = 2 \<and>
   length (q_null_flags (QueryAll example_server example_binder
      [Value_type ''int'', Value_type ''std::string''] [] [] ''SELECT a, b FROM t'' []) ! 1) = 2 \<and>
   q_results (QueryAll example_server example_binder
      [Value_type ''int'', Value_type ''std::string''] [] [] ''SELECT a, b FROM t'' []) ! 1 ! 0
     = [7, 0, 0, 0] \<and>
   q_null_flags (QueryAll example_server example_binder
      [Value_type ''int'', Value_type ''std::string''] [] [] ''SELECT a, b FROM t'' []) ! 1 ! 1 = 1"
proof -
  let ?run = "QueryAll example_server example_binder
      [Value_type ''int'', Value_type ''std::string''] [] [] ''SELECT a, b FROM t'' []"
  let ?rows = "row_fetches (fetch_replies example_server)"
  have prep: "prepare_reply example_server = Inr 2"
    and bound: "bind_param_reply example_server = 0"
    and exec: "execute_reply example_server = None"
    by (simp_all add: example_server_def)
  have arity: "length [Value_type ''int'', Value_type ''std::string''] = 2"
    by simp
  have rows: "?rows = fetch_replies example_server"
    by (simp add: example_server_def row_fetches_def MYSQL_NO_DATA_def)
  have stop: "stopping_status (fetch_replies example_server) = MYSQL_NO_DATA"
    by (simp add: example_server_def stopping_status_def MYSQL_NO_DATA_def)
  have fetched: "\<forall>r \<in> set ?rows. fetch_status r = 0 \<and>
                    length (fetch_buffers r) = 2 \<and> length (fetch_is_null r) = 2"
    by (simp add: rows) (simp add: example_server_def)
  have shape: "map fetch_status ?rows = [0, 0]"
    "map (length \<circ> fetch_buffers) ?rows = [2, 2]"
    "map (length \<circ> fetch_is_null) ?rows = [2, 2]"
    and two: "length ?rows = 2"
    and second: "fetch_buffers (?rows ! 1) ! 0 = [7, 0, 0, 0]" "fetch_is_null (?rows ! 1) ! 1 = 1"
    by (simp_all add: rows) (simp_all add: example_server_def)
  note fact = QueryAll_rows_and_flags [OF prep arity bound exec refl fetched stop
      example_binder_positional refl, where ?results0.0 = "[]" and ?null_flags0.0 = "[]"
      and query = "''SELECT a, b FROM t''" and args = "[]"]
  from fact have len: "length (q_results ?run) = length ?rows"
    by blast
  from fact have "\<forall>k < length ?rows.
      length (q_null_flags ?run ! k) = length [Value_type ''int'', Value_type ''std::string''] \<and>
      (\<forall>i < length [Value_type ''int'', Value_type ''std::string''].
         q_results ?run ! k ! i = fetch_buffers (?rows ! k) ! i \<and>
         q_null_flags ?run ! k ! i = fetch_is_null (?rows ! k) ! i)"
    by blast
  then have "length (q_null_flags ?run ! 1) = 2 \<and>
      q_results ?run ! 1 ! 0 = fetch_buffers (?rows ! 1) ! 0 \<and>
      q_null_flags ?run ! 1 ! 1 = fetch_is_null (?rows ! 1) ! 1"
    using two by simp
  then show ?thesis
    using prep bound exec stop shape len two second by simp
qed

text \<open>
  The claim as stated fails where the declared arity is not the field count: three
  result columns read with two declared output types give a flag sequence of length
  three.
\<close>

theorem QueryAll_flag_length_counterexample:
  "q_thrown (QueryAll three_column_server example_binder
      [Value_type ''int'', Value_type ''std::string''] [] [] ''SELECT a, b, c FROM t3'' []) = None \<and>
   q_null_flags (QueryAll three_column_server example_binder
      [Value_type ''int'', Value_type ''std::string''] [] [] ''SELECT a, b, c FROM t3'' [])
     = [[0, 0, 0]] \<and>
   length [Value_type ''int'', Value_type ''std::string''] = 2"
  by code_simp

subsection \<open>C2: no arity check\<close>

text \<open>
  Claim C2, as amended. \<^verbatim>\<open>QueryAll\<close> makes no arity check: a call that declares fewer
  output types than the statement has fields is not rejected. When the statement
  prepares, binds and executes and the fetches answer \<open>N\<close> rows (status 0) and then
  the end of data, the call raises nothing, goes on to \<^verbatim>\<open>ExecuteStatement\<close>, fetches
  \<open>N + 1\<close> times and appends \<open>N\<close> rows. (With more declared types than fields
  \<^verbatim>\<open>BindOutputs\<close> writes past the end of the descriptors; nothing is said about that
  call.)
\<close>

theorem QueryAll_no_arity_check:
  fixes bnd :: "('arg, 'bind, 'ty, 'row) mysql_binder"
  assumes prep: "prepare_reply srv = Inr F"
    and fewer: "length OutputArgs < F"
    and bound: "bind_param_reply srv = 0"
    and exec: "execute_reply srv = None"
    and rows: "rows = row_fetches (fetch_replies srv)"
    and fetched: "\<forall>r \<in> set rows. fetch_status r = 0"
    and stop: "stopping_status (fetch_replies srv) = MYSQL_NO_DATA"
    and run: "run = QueryAll srv bnd OutputArgs results0 null_flags0 query args"
  shows "q_thrown run = None \<and>
         q_calls run =
           [Call_MysqlStatement query, Call_bind_param (BindInputImpl bnd args),
            Call_ExecuteStatement] @ replicate (Suc (length rows)) Call_fetch \<and>
         length (q_results run) = length rows"
proof -
  let ?init = "\<lparr>q_thrown = None,
        q_calls = [Call_MysqlStatement query, Call_bind_param (BindInputImpl bnd args),
                   Call_ExecuteStatement],
        q_results = [], q_null_flags = []\<rparr> :: ('bind, 'row) query_run"
  have eq: "run = FetchResults srv (SetResultTuple bnd OutputArgs) (bound_descriptors OutputArgs F)
       (replicate F []) (replicate F 0) ?init"
    using fewer by (simp add: run QueryAll_prepared [OF prep _ exec])
  have thrown: "q_thrown run = None"
    by (simp add: eq FetchResults_fields FetchResults_loop_thrown)
  have calls: "q_calls run =
           [Call_MysqlStatement query, Call_bind_param (BindInputImpl bnd args),
            Call_ExecuteStatement] @ replicate (Suc (length rows)) Call_fetch"
    using stop by (simp add: eq rows FetchResults_calls MYSQL_NO_DATA_def)
  have "filter (\<lambda>r. fetch_status r \<noteq> MYSQL_DATA_TRUNCATED) rows = rows"
    using fetched by (simp add: MYSQL_DATA_TRUNCATED_def)
  then have count: "length (q_results run) = length rows"
    by (simp add: eq rows FetchResults_fields FetchResults_loop_count)
  show ?thesis
    using thrown calls count by simp
qed

text \<open>
  The theorem at a call that declares two output types for a statement of three
  fields: no exception, two fetches, one row.
\<close>

theorem QueryAll_no_arity_check_witness:
  "prepare_reply three_column_server = Inr 3 \<and>
   length [Value_type ''int'', Value_type ''std::string''] < 3 \<and>
   bind_param_reply three_column_server = 0 \<and> execute_reply three_column_server = None \<and>
   map fetch_status (row_fetches (fetch_replies three_column_server)) = [0] \<and>
   stopping_status (fetch_replies three_column_server) = MYSQL_NO_DATA \<and>
   q_thrown (QueryAll three_column_server example_binder
      [Value_type ''int'', Value_type ''std::string''] [] [] ''SELECT a, b, c FROM t3'' []) = None \<and>
   q_calls (QueryAll three_column_server example_binder
      [Value_type ''int'', Value_type ''std::string''] [] [] ''SELECT a, b, c FROM t3'' [])
     = [Call_MysqlStatement ''SELECT a, b, c FROM t3'', Call_bind_param [],
        Call_ExecuteStatement, Call_fetch, Call_fetch] \<and>
   length (q_results (QueryAll three_column_server example_binder
      [Value_type ''int'', Value_type ''std::string''] [] [] ''SELECT a, b, c FROM t3'' [])) = 1"
proof -
  let ?rows = "row_fetches (fetch_replies three_column_server)"
  have prep: "prepare_reply three_column_server = Inr 3"
    and bound: "bind_param_reply three_column_server = 0"
    and exec: "execute_reply three_column_server = None"
    by (simp_all add: three_column_server_def)
  have fewer: "length [Value_type ''int'', Value_type ''std::string''] < 3"
    by simp
  have rows: "?rows = fetch_replies three_column_server"
    by (simp add: three_column_server_def row_fetches_def MYSQL_NO_DATA_def)
  have stop: "stopping_status (fetch_replies three_column_server) = MYSQL_NO_DATA"
    by (simp add: three_column_server_def stopping_status_def MYSQL_NO_DATA_def)
  have fetched: "\<forall>r \<in> set ?rows. fetch_status r = 0"
    by (simp add: rows) (simp add: three_column_server_def)
  have shape: "map fetch_status ?rows = [0]" and one: "length ?rows = 1"
    by (simp_all add: rows) (simp_all add: three_column_server_def)
  note fact = QueryAll_no_arity_check [OF prep fewer bound exec refl fetched stop refl,
      where bnd = example_binder and ?results0.0 = "[]" and ?null_flags0.0 = "[]"
      and query = "''SELECT a, b, c FROM t3''" and args = "[]"]
  have args: "BindInputImpl example_binder [] = []"
    by (simp add: example_binder_def)
  from fact show ?thesis
    using prep bound exec stop shape one args by simp
qed

text \<open>
  The claim as stated fails there: with two declared types against three fields the
  call raises nothing, fetches twice (the row, then the end of data) and appends the
  row.
\<close>

theorem QueryAll_arity_mismatch_counterexample:
  "prepare_reply three_column_server = Inr 3 \<and>
   length [Value_type ''int'', Value_type ''std::string''] = 2 \<and>
   q_thrown (QueryAll three_column_server example_binder
      [Value_type ''int'', Value_type ''std::string''] [] [] ''SELECT a, b, c FROM t3'' []) = None \<and>
   q_calls (QueryAll three_column_server example_binder
      [Value_type ''int'', Value_type ''std::string''] [] [] ''SELECT a, b, c FROM t3'' [])
     = [Call_MysqlStatement ''SELECT a, b, c FROM t3'', Call_bind_param [],
        Call_ExecuteStatement, Call_fetch, Call_fetch] \<and>
   q_results (QueryAll three_column_server example_binder
      [Value_type ''int'', Value_type ''std::string''] [] [] ''SELECT a, b, c FROM t3'' [])
     = [[[5, 0, 0, 0], [120]]]"
  by code_simp

subsection \<open>C3: a failed fetch\<close>

text \<open>
  Claim C3 says that a fetch error stops the loop and that the call raises a
  \<^verbatim>\<open>FetchError\<close> with the protocol's error text. The loop does stop, but the source
  builds the exception without throwing it. At a server whose second fetch fails,
  \<^verbatim>\<open>QueryAll\<close> reads the error text and returns normally, with the row fetched before
  the failure left in the result collection.
\<close>

theorem FetchResults_error_not_raised:
  "q_thrown (QueryAll failing_fetch_server example_binder
      [Value_type ''int'', Value_type ''std::string''] [] [] ''SELECT a, b FROM t'' []) = None \<and>
   q_calls (QueryAll failing_fetch_server example_binder
      [Value_type ''int'', Value_type ''std::string''] [] [] ''SELECT a, b FROM t'' [])
     = [Call_MysqlStatement ''SELECT a, b FROM t'', Call_bind_param [],
        Call_ExecuteStatement, Call_fetch, Call_fetch, Call_stmt_error] \<and>
   q_results (QueryAll failing_fetch_server example_binder
      [Value_type ''int'', Value_type ''std::string''] [] [] ''SELECT a, b FROM t'' [])
     = [[[5, 0, 0, 0], [120]]]"
  by code_simp

subsection \<open>C4: a rejected parameter binding\<close>

text \<open>
  Claim C4 says that a failed \<^verbatim>\<open>mysql_stmt_bind_param\<close> aborts the call before the
  execute step with a \<^verbatim>\<open>BindError\<close>. The branch taken on failure is empty in both
  operations. At a server that rejects the binding, \<^verbatim>\<open>QueryAll\<close> and \<^verbatim>\<open>Execute\<close> go on
  to \<^verbatim>\<open>ExecuteStatement\<close> and return normally.
\<close>

theorem bind_failure_ignored:
  "bind_param_reply rejecting_bind_server = 1 \<and>
   q_thrown (QueryAll rejecting_bind_server example_binder
      [Value_type ''int'', Value_type ''std::string''] [] []
      ''SELECT a, b FROM t WHERE a = ?'' [''5'', ''6'']) = None \<and>
   q_calls (QueryAll rejecting_bind_server example_binder
      [Value_type ''int'', Value_type ''std::string''] [] []
      ''SELECT a, b FROM t WHERE a = ?'' [''5'', ''6''])
     = [Call_MysqlStatement ''SELECT a, b FROM t WHERE a = ?'', Call_bind_param [''5'', ''6''],
        Call_ExecuteStatement, Call_fetch, Call_fetch, Call_fetch] \<and>
   Execute rejecting_bind_server example_binder ''DELETE FROM t WHERE a = ?'' [''5'', ''6'']
     = \<lparr>x_calls = [Call_MysqlStatement ''DELETE FROM t WHERE a = ?'',
                    Call_bind_param [''5'', ''6''], Call_ExecuteStatement, Call_affected_rows],
        x_result = Inr 1\<rparr>"
  by code_simp

subsection \<open>C5: a truncated row\<close>

text \<open>
  Claim C5 says that on a truncation signal the column is fetched again with a
  larger buffer or the call fails, and that the row count is never altered silently.
  The branch for \<^verbatim>\<open>MYSQL_DATA_TRUNCATED\<close> is empty. At a server whose second of three
  rows is truncated, \<^verbatim>\<open>QueryAll\<close> returns normally with two rows: the truncated row is
  gone and nothing tells the caller.
\<close>

theorem truncated_row_dropped:
  "map fetch_status (fetch_replies truncating_server) = [0, MYSQL_DATA_TRUNCATED, 0] \<and>
   q_thrown (QueryAll truncating_server example_binder
      [Value_type ''int'', Value_type ''std::string''] [] [] ''SELECT a, b FROM t'' []) = None \<and>
   q_results (QueryAll truncating_server example_binder
      [Value_type ''int'', Value_type ''std::string''] [] [] ''SELECT a, b FROM t'' [])
     = [[[5, 0, 0, 0], [120]], [[7, 0, 0, 0], []]] \<and>
   q_null_flags (QueryAll truncating_server example_binder
      [Value_type ''int'', Value_type ''std::string''] [] [] ''SELECT a, b FROM t'' [])
     = [[0, 0], [0, 1]]"
  by code_simp

subsection \<open>C6: cleared at the start, filled before return\<close>

text \<open>
  Claim C6 says that \<^verbatim>\<open>QueryAll\<close> clears both collections at the start, that a query
  without rows gives empty collections, and that the full collection is materialized
  before return, with no partial delivery. The clearing is there, but what comes back
  is not always the full collection. Called on vectors that still hold a row of an
  earlier query, \<^verbatim>\<open>QueryAll\<close> returns normally from a fetch loop that an error stopped,
  with the one row collected so far; and of three rows, the second of them truncated,
  it returns two.
\<close>

theorem QueryAll_returns_partial_collection:
  "stopping_status (fetch_replies failing_fetch_server) = 1 \<and>
   q_thrown (QueryAll failing_fetch_server example_binder
      [Value_type ''int'', Value_type ''std::string'']
      [[[9, 0, 0, 0], [122]]] [[0, 0]] ''SELECT a, b FROM t'' []) = None \<and>
   q_results (QueryAll failing_fetch_server example_binder
      [Value_type ''int'', Value_type ''std::string'']
      [[[9, 0, 0, 0], [122]]] [[0, 0]] ''SELECT a, b FROM t'' []) = [[[5, 0, 0, 0], [120]]] \<and>
   length (row_fetches (fetch_replies truncating_server)) = 3 \<and>
   q_thrown (QueryAll truncating_server example_binder
      [Value_type ''int'', Value_type ''std::string'']
      [[[9, 0, 0, 0], [122]]] [[0, 0]] ''SELECT a, b FROM t'' []) = None \<and>
   length (q_results (QueryAll truncating_server example_binder
      [Value_type ''int'', Value_type ''std::string'']
      [[[9, 0, 0, 0], [122]]] [[0, 0]] ''SELECT a, b FROM t'' [])) = 2"
  by code_simp

subsection \<open>C7: the affected-row count\<close>

text \<open>
  Claim C7 says that \<^verbatim>\<open>Execute\<close> returns the reported affected-row count as a
  non-negative integer, without sign change or wrap-around. The count is held in a
  \<^verbatim>\<open>size_t\<close> and returned through the return type \<^verbatim>\<open>int\<close>. A reported count of
  \<open>2\<^sup>3\<^sup>1\<close> comes back as \<open>-2\<^sup>3\<^sup>1\<close>, and the overload on \<^verbatim>\<open>MysqlResults<OnlyExec>\<close>
  stores it, sign-extended, as \<open>2\<^sup>6\<^sup>4 - 2\<^sup>3\<^sup>1\<close>; the library's \<^verbatim>\<open>(my_ulonglong)-1\<close> comes
  back as \<open>-1\<close>.
\<close>

theorem Execute_count_wraps:
  "map_sum id sint (x_result (Execute (example_server\<lparr>affected_rows_reply := 2147483648\<rparr>)
      example_binder ''UPDATE big SET a = a + 1'' [])) = Inr (- 2147483648) \<and>
   unat (affected_rows (m_results (Execute_MysqlResults
      (example_server\<lparr>affected_rows_reply := 2147483648\<rparr>) example_binder
      MysqlResults_ctor ''UPDATE big SET a = a + 1'' []))) = 18446744071562067968 \<and>
   map_sum id sint (x_result (Execute (example_server\<lparr>affected_rows_reply := 18446744073709551615\<rparr>)
      example_binder ''UPDATE big SET a = a + 1'' [])) = Inr (- 1)"
  by (simp add: Execute_MysqlResults_def Execute_def example_server_def example_binder_def
        MysqlResults_ctor_def Let_def)

subsection \<open>C8: the exec-only marker and \<^verbatim>\<open>QueryAll\<close>\<close>

text \<open>
  Claim C8. Calling \<^verbatim>\<open>QueryAll\<close> on a \<^verbatim>\<open>MysqlResults<OnlyExec>\<close> object fails the
  \<^verbatim>\<open>static_assert\<close> when the template is instantiated: there is a diagnostic and no
  function to call, so nothing is left to reject at run time, while \<^verbatim>\<open>Execute\<close> takes
  that object. \<^verbatim>\<open>QueryAll\<close> is instantiated for every other template argument list,
  and \<^verbatim>\<open>Execute\<close> takes no other \<^verbatim>\<open>MysqlResults\<close> object.
\<close>

theorem QueryAll_MysqlResults_static_assert:
  fixes OutputArgs :: "'ty template_arg list"
  defines "query_all \<equiv> (QueryAll_MysqlResults_template ::
      'ty template_arg list \<Rightarrow>
      compile_error + (mysql_server \<Rightarrow> ('arg, 'bind, 'ty, 'row) mysql_binder \<Rightarrow>
                'row MysqlResults \<Rightarrow> string \<Rightarrow> 'arg list \<Rightarrow> ('bind, 'row) results_run))"
    and "execute \<equiv> (Execute_MysqlResults_overload ::
      'ty template_arg list \<Rightarrow>
      compile_error + (mysql_server \<Rightarrow> ('arg, 'bind, 'ty, 'row) mysql_binder \<Rightarrow>
                'row MysqlResults \<Rightarrow> string \<Rightarrow> 'arg list \<Rightarrow> ('bind, 'row) results_run))"
  shows "query_all [OnlyExec] =
           Inl (Static_assert_failed ''MysqlResults<OnlyExec> cannot be used with QueryAll.'') \<and>
         execute [OnlyExec] = Inr Execute_MysqlResults \<and>
         (\<exists>f. query_all OutputArgs = Inr f) = (OutputArgs \<noteq> [OnlyExec]) \<and>
         (\<exists>f. execute OutputArgs = Inr f) = (OutputArgs = [OnlyExec])"
  by (simp add: query_all_def execute_def QueryAll_MysqlResults_template_def
        Execute_MysqlResults_overload_def is_only_exec_def)

subsection \<open>C10: what the overloads on \<^verbatim>\<open>MysqlResults\<close> write\<close>

text \<open>
  Claim C10. \<^verbatim>\<open>QueryAll\<close> on a \<^verbatim>\<open>MysqlResults\<close> object leaves \<^verbatim>\<open>error_message\<close> and
  \<^verbatim>\<open>affected_rows\<close> as they were; \<^verbatim>\<open>Execute\<close> on a \<^verbatim>\<open>MysqlResults<OnlyExec>\<close> object
  leaves \<^verbatim>\<open>error_message\<close>, \<^verbatim>\<open>result_set\<close> and \<^verbatim>\<open>null_flags\<close> as they were.
\<close>

theorem MysqlResults_frame:
  "error_message (m_results (QueryAll_MysqlResults srv bnd OutputArgs mysql_results query args))
     = error_message mysql_results \<and>
   affected_rows (m_results (QueryAll_MysqlResults srv bnd OutputArgs mysql_results query args))
     = affected_rows mysql_results \<and>
   error_message (m_results (Execute_MysqlResults srv bnd mysql_results query args))
     = error_message mysql_results \<and>
   result_set (m_results (Execute_MysqlResults srv bnd mysql_results query args))
     = result_set mysql_results \<and>
   null_flags (m_results (Execute_MysqlResults srv bnd mysql_results query args))
     = null_flags mysql_results"
  by (simp add: QueryAll_MysqlResults_def Execute_MysqlResults_def Let_def split: sum.splits)

end
